theory Spec2Isabelle
  imports Complex_Main
begin

section \<open>JavaScript values\<close>

text \<open>
  A number is a finite value (every finite double is a rational; the model does not
  round, and \<open>+0\<close> and \<open>-0\<close>, which no operation of this file tells apart, are one
  value), \<open>NaN\<close> or an infinity (\<open>Infinity True\<close> is the positive one).
\<close>

datatype number = Finite rat | NaN | Infinity bool

text \<open>
  The values a filter property can hold. An object is a reference: two objects are the
  same value exactly when they are the same reference.
\<close>

datatype jsval =
    JUndefined
  | JNull
  | JBool bool
  | JNum number
  | JStr string
  | JObject nat

datatype exn =
    ArgumentError string
  | ScriptingError string
  | ReferenceError string
  | TypeError
  | ProxyError string

text \<open>\<open>a === b\<close>: \<open>NaN\<close> is not equal to itself.\<close>

fun strict_eq :: "jsval \<Rightarrow> jsval \<Rightarrow> bool" where
  "strict_eq (JNum NaN) _ = False"
| "strict_eq _ (JNum NaN) = False"
| "strict_eq a b = (a = b)"

text \<open>The truthiness of a value, as \<open>!\<close>, \<open>&&\<close> and \<open>? :\<close> read it.\<close>

fun truthy :: "jsval \<Rightarrow> bool" where
  "truthy JUndefined = False"
| "truthy JNull = False"
| "truthy (JBool b) = b"
| "truthy (JNum (Finite r)) = (r \<noteq> 0)"
| "truthy (JNum NaN) = False"
| "truthy (JNum (Infinity _)) = True"
| "truthy (JStr s) = (s \<noteq> [])"
| "truthy (JObject _) = True"

section \<open>The checkers\<close>

fun isBoolean :: "jsval \<Rightarrow> bool" where
  "isBoolean (JBool _) = True"
| "isBoolean _ = False"

text \<open>\<open>typeof value === 'number' && Number.isInteger(value)\<close>\<close>

fun isInteger :: "jsval \<Rightarrow> bool" where
  "isInteger (JNum (Finite r)) = (of_int \<lfloor>r\<rfloor> = r)"
| "isInteger _ = False"

text \<open>
  \<open>isEnum\<close> is called with the enumeration as \<open>this\<close>; the list holds the values of
  the enumeration's own enumerable properties, in the order \<open>for ... in\<close> visits them.
\<close>

fun isEnum :: "jsval list \<Rightarrow> jsval \<Rightarrow> bool" where
  "isEnum [] value = False"
| "isEnum (x # this) value = (if strict_eq x value then True else isEnum this value)"

fun isString :: "jsval \<Rightarrow> bool" where
  "isString (JStr _) = True"
| "isString _ = False"

section \<open>Filters and checker tables\<close>

text \<open>
  A filter is a plain object: the list of its own enumerable properties in the order
  \<open>for ... in\<close> visits them, which is also the order of \<open>Object.keys\<close>. It inherits
  none of the names this file asks it for, so \<open>name in filter\<close> and
  \<open>hasOwnProperty(filter, name)\<close> agree and \<open>filter.name\<close> of a missing name is
  \<open>undefined\<close>. The names in the list are distinct, so its length is that of
  \<open>Object.keys(filter)\<close>.
\<close>

type_synonym jsfilter = "(string \<times> jsval) list"

definition has_key :: "string \<Rightarrow> jsfilter \<Rightarrow> bool" where
  "has_key k f = (k \<in> set (map fst f))"

definition get_prop :: "jsfilter \<Rightarrow> string \<Rightarrow> jsval" where
  "get_prop f k = (case map_of f k of None \<Rightarrow> JUndefined | Some v \<Rightarrow> v)"

text \<open>
  The checkers of this file are predicates. What \<open>fields[prop](value)\<close> does in
  general is a call of whatever \<open>fields[prop]\<close> is: it throws (a \<open>TypeError\<close> when the
  property is not a function) or returns a value, of which \<open>checkFilter\<close> reads the
  truthiness. A checker table is read only through \<open>prop in fields\<close> and
  \<open>fields[prop]\<close>, which both follow the prototype chain: the table is the partial
  function from a property name to the call of the property found under it.
\<close>

type_synonym checker = "jsval \<Rightarrow> bool"
type_synonym callee = "jsval \<Rightarrow> exn + bool"
type_synonym fields = "string \<Rightarrow> callee option"

text \<open>
  The property key of a value used as a property name; the conversion of a value that
  is not a string is the parameter \<open>toStr\<close>.
\<close>

definition ToPropertyKey :: "(jsval \<Rightarrow> string) \<Rightarrow> jsval \<Rightarrow> string" where
  "ToPropertyKey toStr v = (case v of JStr s \<Rightarrow> s | _ \<Rightarrow> toStr v)"

text \<open>
  Modelled from the ECMAScript specification: the properties of \<open>Object.prototype\<close>,
  which every object literal inherits, each as the call \<open>fields[prop](value)\<close> with the
  table \<open>fields\<close> as \<open>this\<close> and \<open>own\<close> the table's own entries.
  \<^item> \<open>constructor\<close> is \<open>Object\<close>, which returns an object; \<open>toString\<close> returns
    \<open>"[object Object]"\<close>; \<open>valueOf\<close> returns the table: all truthy.
  \<^item> \<open>toLocaleString\<close> returns \<open>this.toString()\<close>, which is an own \<open>toString\<close> entry
    called without argument when the table has one.
  \<^item> \<open>hasOwnProperty\<close> and \<open>propertyIsEnumerable\<close> tell whether the value names an
    own entry of the table; \<open>isPrototypeOf\<close> is false, the table being a fresh object.
  \<^item> \<open>__proto__\<close> is an accessor whose value is \<open>Object.prototype\<close>, not a function:
    the call is a \<open>TypeError\<close>.
  \<^item> \<open>__defineGetter__\<close> and \<open>__defineSetter__\<close> throw a \<open>TypeError\<close>, their second
    argument not being a function.
  \<^item> \<open>__lookupGetter__\<close> and \<open>__lookupSetter__\<close> return the accessor function of the
    named property: a function for \<open>__proto__\<close>, \<open>undefined\<close> for every other name.
\<close>

definition Object_prototype :: "(jsval \<Rightarrow> string) \<Rightarrow> (string \<times> checker) list \<Rightarrow> fields" where
  "Object_prototype toStr own prop =
     (if prop = ''constructor'' then Some (\<lambda>v. Inr True)
      else if prop = ''toString'' then Some (\<lambda>v. Inr True)
      else if prop = ''valueOf'' then Some (\<lambda>v. Inr True)
      else if prop = ''toLocaleString'' then
        Some (\<lambda>v. case map_of own ''toString'' of None \<Rightarrow> Inr True | Some c \<Rightarrow> Inr (c JUndefined))
      else if prop = ''hasOwnProperty'' then
        Some (\<lambda>v. Inr (ToPropertyKey toStr v \<in> set (map fst own)))
      else if prop = ''propertyIsEnumerable'' then
        Some (\<lambda>v. Inr (ToPropertyKey toStr v \<in> set (map fst own)))
      else if prop = ''isPrototypeOf'' then Some (\<lambda>v. Inr False)
      else if prop = ''__proto__'' then Some (\<lambda>v. Inl TypeError)
      else if prop = ''__defineGetter__'' then Some (\<lambda>v. Inl TypeError)
      else if prop = ''__defineSetter__'' then Some (\<lambda>v. Inl TypeError)
      else if prop = ''__lookupGetter__'' then
        Some (\<lambda>v. Inr (ToPropertyKey toStr v = ''__proto__'' \<and> ''__proto__'' \<notin> set (map fst own)))
      else if prop = ''__lookupSetter__'' then
        Some (\<lambda>v. Inr (ToPropertyKey toStr v = ''__proto__'' \<and> ''__proto__'' \<notin> set (map fst own)))
      else None)"

text \<open>
  An object literal used as a table: its own entries, which are checkers of this file,
  then what it inherits from \<open>Object.prototype\<close>.
\<close>

definition table :: "(jsval \<Rightarrow> string) \<Rightarrow> (string \<times> checker) list \<Rightarrow> fields" where
  "table toStr entries =
     (\<lambda>prop. case map_of entries prop of
               Some c \<Rightarrow> Some (\<lambda>v. Inr (c v))
             | None \<Rightarrow> Object_prototype toStr entries prop)"

definition unsupported_msg :: "string \<Rightarrow> string" where
  "unsupported_msg prop = ''Unsupported filter property has been recieved: \"'' @ prop @ ''\"''"

definition unsatisfied_msg :: "string \<Rightarrow> string" where
  "unsatisfied_msg prop = ''Received filter property '' @ prop @ '' was not satisfied for checker''"

fun checkFilter :: "jsfilter \<Rightarrow> fields \<Rightarrow> exn + unit" where
  "checkFilter [] fields = Inr ()"
| "checkFilter ((prop, v) # rest) fields =
     (case fields prop of
        None \<Rightarrow> Inl (ArgumentError (unsupported_msg prop))
      | Some call \<Rightarrow>
          (case call v of
             Inl x \<Rightarrow> Inl x
           | Inr satisfied \<Rightarrow>
               if \<not> satisfied then Inl (ArgumentError (unsatisfied_msg prop))
               else checkFilter rest fields))"

section \<open>The environment of the module\<close>

text \<open>
  What the module takes from outside: the server proxy, the classes and enumerations of
  \<open>window.cvat\<close>, and the built-in conversions. None of them is defined in this file, so each is a parameter.
  Values of type \<open>'o\<close> are the objects the proxy answers with and the instances the
  classes build.
\<close>

record 'o env =
  TaskStatus :: "jsval list"
  TaskMode :: "jsval list"
  getSelf :: "exn + 'o"
  getUsers :: "exn + 'o list"
  getJob :: "jsval \<Rightarrow> exn + 'o"
  getTasks :: "string \<Rightarrow> exn + 'o list"
  new_User :: "'o \<Rightarrow> 'o"
  new_Task :: "'o option \<Rightarrow> 'o"
    \<comment> \<open>\<open>None\<close> is the argument \<open>undefined\<close>\<close>
  task_id_of :: "'o \<Rightarrow> jsval"
    \<comment> \<open>\<open>job.task_id\<close>\<close>
  jobs_of :: "'o \<Rightarrow> 'o list"
    \<comment> \<open>\<open>task.jobs\<close>\<close>
  id_of :: "'o \<Rightarrow> jsval"
    \<comment> \<open>\<open>job.id\<close>\<close>
  ToString :: "jsval \<Rightarrow> string"
    \<comment> \<open>the conversion of a value to a string\<close>
  encode :: "string \<Rightarrow> string"
    \<comment> \<open>the form-urlencoding of one name or value\<close>
  new_Statistics :: "'o option"
  new_ObjectState :: "'o option"
  new_FrameData :: "(jsval \<Rightarrow> jsval \<Rightarrow> 'o) option"
    \<comment> \<open>the three identifiers the file uses and does not declare: \<open>None\<close> when no
       global of that name exists\<close>
  config :: "(jsval \<times> jsval) option"
    \<comment> \<open>\<open>host\<close> and \<open>api\<close> of \<open>window.cvat.config\<close>; \<open>None\<close> when it is undefined\<close>
  outer_this_taskID :: "jsval option"
    \<comment> \<open>\<open>this.taskID\<close> for the \<open>this\<close> of \<open>implementAPI\<close>, which the arrow functions
       see; \<open>None\<close> when that \<open>this\<close> is undefined\<close>

text \<open>The calls made to the server proxy, in order.\<close>

datatype call = GetSelf | GetUsers | GetJob jsval | GetTasks string

type_synonym 'a run = "(exn + 'a) \<times> call list"

section \<open>URLSearchParams\<close>

type_synonym searchParams = "(string \<times> string) list"

text \<open>\<open>set\<close> overwrites the first pair of that name and drops the others, or appends.\<close>

fun sp_set :: "searchParams \<Rightarrow> string \<Rightarrow> string \<Rightarrow> searchParams" where
  "sp_set [] n v = [(n, v)]"
| "sp_set ((m, w) # ps) n v =
     (if m = n then (n, v) # filter (\<lambda>(m', _). m' \<noteq> n) ps else (m, w) # sp_set ps n v)"

fun join_amp :: "string list \<Rightarrow> string" where
  "join_amp [] = []"
| "join_amp [x] = x"
| "join_amp (x # y # ys) = x @ ''&'' @ join_amp (y # ys)"

definition sp_toString :: "'o env \<Rightarrow> searchParams \<Rightarrow> string" where
  "sp_toString e ps = join_amp (map (\<lambda>(n, v). encode e n @ ''='' @ encode e v) ps)"

section \<open>cvat.users.get, cvat.tasks.get, cvat.jobs.get\<close>

definition users_get :: "'o env \<Rightarrow> jsfilter \<Rightarrow> 'o list run" where
  "users_get e flt =
     (case checkFilter flt (table (ToString e) [(''self'', isBoolean)]) of
        Inl x \<Rightarrow> (Inl x, [])
      | Inr _ \<Rightarrow>
          if has_key ''self'' flt \<and> truthy (get_prop flt ''self'') then
            (case getSelf e of
               Inl x \<Rightarrow> (Inl x, [GetSelf])
             | Inr users \<Rightarrow> (Inr (map (new_User e) [users]), [GetSelf]))
          else
            (case getUsers e of
               Inl x \<Rightarrow> (Inl x, [GetUsers])
             | Inr users \<Rightarrow> (Inr (map (new_User e) users), [GetUsers])))"

definition task_fields :: "'o env \<Rightarrow> fields" where
  "task_fields e = table (ToString e)
     [(''name'', isString),
      (''id'', isInteger),
      (''owner'', isString),
      (''assignee'', isString),
      (''search'', isString),
      (''status'', isEnum (TaskStatus e)),
      (''mode'', isEnum (TaskMode e))]"

definition query_fields :: "string list" where
  "query_fields = [''name'', ''owner'', ''assignee'', ''search'', ''status'', ''mode'', ''id'']"

text \<open>The loop that fills \<open>searchParams\<close>.\<close>

fun fill :: "'o env \<Rightarrow> jsfilter \<Rightarrow> searchParams \<Rightarrow> string list \<Rightarrow> searchParams" where
  "fill e flt sp [] = sp"
| "fill e flt sp (field # rest) =
     (if has_key field flt
      then fill e flt (sp_set sp field (ToString e (get_prop flt field))) rest
      else fill e flt sp rest)"

definition tasks_get :: "'o env \<Rightarrow> jsfilter \<Rightarrow> 'o list run" where
  "tasks_get e flt =
     (case checkFilter flt (task_fields e) of
        Inl x \<Rightarrow> (Inl x, [])
      | Inr _ \<Rightarrow>
          if has_key ''search'' flt \<and> length flt > 1 then
            (Inl (ArgumentError ''Do not use the filter field \"search\" with others''), [])
          else if has_key ''id'' flt \<and> length flt > 1 then
            (Inl (ArgumentError ''Do not use the filter field \"id\" with others''), [])
          else
            (let searchParams = fill e flt [] query_fields;
                 query = sp_toString e searchParams
             in case getTasks e query of
                  Inl x \<Rightarrow> (Inl x, [GetTasks query])
                | Inr tasks \<Rightarrow> (Inr (map (\<lambda>task. new_Task e (Some task)) tasks), [GetTasks query])))"

text \<open>\<open>task[0]\<close>: \<open>undefined\<close> on an empty array.\<close>

definition first_elem :: "'a list \<Rightarrow> 'a option" where
  "first_elem xs = (case xs of [] \<Rightarrow> None | x # _ \<Rightarrow> Some x)"

definition jobs_get :: "'o env \<Rightarrow> jsfilter \<Rightarrow> 'o list run" where
  "jobs_get e flt =
     (case checkFilter flt (table (ToString e) [(''taskID'', isInteger), (''jobID'', isInteger)]) of
        Inl x \<Rightarrow> (Inl x, [])
      | Inr _ \<Rightarrow>
          if has_key ''taskID'' flt \<and> has_key ''jobID'' flt then
            (Inl (ArgumentError ''Only one of fields \"taskID\" and \"jobID\" allowed simultaneously''), [])
          else if length flt = 0 then
            (Inl (ArgumentError ''Job filter must not be empty''), [])
          else
            (let (fetched, calls) =
                   (if has_key ''taskID'' flt then tasks_get e [(''id'', get_prop flt ''taskID'')]
                    else
                      (case getJob e (get_prop flt ''jobID'') of
                         Inl x \<Rightarrow> (Inl x, [GetJob (get_prop flt ''jobID'')])
                       | Inr job \<Rightarrow>
                           (let (r, cs) = tasks_get e [(''id'', task_id_of e job)]
                            in (r, GetJob (get_prop flt ''jobID'') # cs))))
             in case fetched of
                  Inl x \<Rightarrow> (Inl x, calls)
                | Inr task \<Rightarrow>
                    (let task' = new_Task e (first_elem task)
                     in (Inr (if truthy (get_prop flt ''jobID'')
                              then filter (\<lambda>job. strict_eq (id_of e job) (get_prop flt ''jobID'')) (jobs_of e task')
                              else jobs_of e task'),
                         calls))))"

section \<open>The context wrapper\<close>

text \<open>The module \<open>hidden\<close>: a deleted slot is \<open>None\<close>.\<close>

record hidden =
  taskID :: "jsval option"
  jobID :: "jsval option"

record task_instance =
  task_instance_id :: jsval

text \<open>\<open>this.task\<close> of a Job: \<open>None\<close> when it is \<open>undefined\<close> or \<open>null\<close>.\<close>

record job_instance =
  job_instance_id :: jsval
  job_instance_task :: "task_instance option"

text \<open>The \<open>this\<close> of a call, as the two \<open>instanceof\<close> tests see it.\<close>

datatype this_context = ThisTask task_instance | ThisJob job_instance | ThisOther

text \<open>The values the handlers return.\<close>

datatype 'o ret = Val jsval | Obj 'o | Arr "'o list"

text \<open>
  A wrapped function is called with \<open>this\<close> and its arguments, reads and writes the
  slots of \<open>hidden\<close>, and returns or throws.
\<close>

type_synonym 'o wrapped = "this_context \<Rightarrow> jsval list \<Rightarrow> hidden \<Rightarrow> (exn + 'o ret) \<times> hidden"

text \<open>
  What one call of the wrapper leaves: its result, the slots of \<open>hidden\<close>, and the
  invocations of the wrapped function, each with the slots it was started on.
\<close>

record 'o outcome =
  result :: "exn + 'o ret"
  hidden_after :: hidden
  invocations :: "(this_context \<times> jsval list \<times> hidden) list"

definition setupEnv :: "'o wrapped \<Rightarrow> this_context \<Rightarrow> jsval list \<Rightarrow> hidden \<Rightarrow> 'o outcome" where
  "setupEnv wrappedFunction this args h =
     (let tried =
            (case this of
               ThisTask t \<Rightarrow>
                 (let h1 = h\<lparr>taskID := Some (task_instance_id t)\<rparr>;
                      (r, h2) = wrappedFunction this args h1
                  in (r, h2, [(this, args, h1)]))
             | ThisJob j \<Rightarrow>
                 (let h1 = h\<lparr>jobID := Some (job_instance_id j)\<rparr>
                  in case job_instance_task j of
                       None \<Rightarrow> (Inl TypeError, h1, [])
                     | Some t \<Rightarrow>
                         (let h2 = h1\<lparr>taskID := Some (task_instance_id t)\<rparr>;
                              (r, h3) = wrappedFunction this args h2
                          in (r, h3, [(this, args, h2)])))
             | ThisOther \<Rightarrow> (Inl (ScriptingError ''Bad context for the function''), h, []))
      in case tried of
           (r, h2, calls) \<Rightarrow>
             \<lparr>result = r, hidden_after = h2\<lparr>taskID := None\<rparr>\<lparr>jobID := None\<rparr>, invocations = calls\<rparr>)"

section \<open>The handlers of jobAPI and taskAPI\<close>

datatype handler =
    annotations_upload
  | annotations_save
  | annotations_clear
  | annotations_dump
  | annotations_statistics
  | annotations_put
  | annotations_get
  | annotations_search
  | annotations_select
  | frames_get
  | logs_put
  | logs_save
  | actions_undo
  | actions_redo
  | actions_clear
  | events_subscribe
  | events_unsubscribe

text \<open>The \<open>n\<close>-th argument of a call: \<open>undefined\<close> when it was not passed.\<close>

definition arg :: "jsval list \<Rightarrow> nat \<Rightarrow> jsval" where
  "arg args n = (if n < length args then args ! n else JUndefined)"

text \<open>
  The arrow functions handed to \<open>setupEnv\<close>. An arrow function has no \<open>this\<close> of its
  own; the identifiers \<open>Statistics\<close>, \<open>ObjectState\<close> and \<open>FrameData\<close> are resolved
  when the body runs.
\<close>

fun body :: "'o env \<Rightarrow> handler \<Rightarrow> 'o wrapped" where
  "body e annotations_upload this args h = (Inr (Val JUndefined), h)"
| "body e annotations_save this args h = (Inr (Val JUndefined), h)"
| "body e annotations_clear this args h = (Inr (Val JUndefined), h)"
| "body e annotations_dump this args h =
     (case config e of
        None \<Rightarrow> (Inl TypeError, h)
      | Some (host, api) \<Rightarrow>
          (case outer_this_taskID e of
             None \<Rightarrow> (Inl TypeError, h)
           | Some tid \<Rightarrow>
               (Inr (Val (JStr (ToString e host @ ''/api/'' @ ToString e api @ ''/tasks/''
                                @ ToString e tid @ ''/annotations/dump''))), h)))"
| "body e annotations_statistics this args h =
     (case new_Statistics e of
        None \<Rightarrow> (Inl (ReferenceError ''Statistics is not defined''), h)
      | Some s \<Rightarrow> (Inr (Obj s), h))"
| "body e annotations_put this args h = (Inr (Val JUndefined), h)"
| "body e annotations_get this args h =
     (case new_ObjectState e of
        None \<Rightarrow> (Inl (ReferenceError ''ObjectState is not defined''), h)
      | Some s \<Rightarrow> (Inr (Arr [s]), h))"
| "body e annotations_search this args h = (Inr (Val (JNum (Finite 0))), h)"
| "body e annotations_select this args h = (Inr (Val JNull), h)"
| "body e frames_get this args h =
     (case new_FrameData e of
        None \<Rightarrow> (Inl (ReferenceError ''FrameData is not defined''), h)
      | Some mk \<Rightarrow>
          (case outer_this_taskID e of
             None \<Rightarrow> (Inl TypeError, h)
           | Some tid \<Rightarrow> (Inr (Obj (mk tid (arg args 0))), h)))"
| "body e logs_put this args h = (Inr (Val JUndefined), h)"
| "body e logs_save this args h = (Inr (Val JUndefined), h)"
| "body e actions_undo this args h = (Inr (Val JUndefined), h)"
| "body e actions_redo this args h = (Inr (Val JUndefined), h)"
| "body e actions_clear this args h = (Inr (Val JUndefined), h)"
| "body e events_subscribe this args h = (Inr (Val JUndefined), h)"
| "body e events_unsubscribe this args h = (Inr (Val JUndefined), h)"

definition jobAPI :: "'o env \<Rightarrow> handler \<Rightarrow> this_context \<Rightarrow> jsval list \<Rightarrow> hidden \<Rightarrow> 'o outcome" where
  "jobAPI e op = setupEnv (body e op)"

definition taskAPI :: "'o env \<Rightarrow> handler \<Rightarrow> this_context \<Rightarrow> jsval list \<Rightarrow> hidden \<Rightarrow> 'o outcome" where
  "taskAPI e op = setupEnv (body e op)"

section \<open>A sample environment\<close>

text \<open>
  An environment to run the operations on: objects are numbers, the server knows two
  users and one task, and the task has the jobs 10 and 11 with the ids 0 and 1. None of
  \<open>Statistics\<close>, \<open>ObjectState\<close>, \<open>FrameData\<close> is a global, as in the file.
\<close>

definition sample_env :: "nat env" where
  "sample_env =
     \<lparr>TaskStatus = [JStr ''annotation'', JStr ''validation'', JStr ''completed''],
      TaskMode = [JStr ''annotation'', JStr ''interpolation''],
      getSelf = Inr 1,
      getUsers = Inr [1, 2],
      getJob = (\<lambda>_. Inr 7),
      getTasks = (\<lambda>_. Inr [3]),
      new_User = (\<lambda>u. u + 100),
      new_Task = (\<lambda>x. case x of None \<Rightarrow> 0 | Some t \<Rightarrow> t + 200),
      task_id_of = (\<lambda>_. JNum (Finite 3)),
      jobs_of = (\<lambda>_. [10, 11]),
      id_of = (\<lambda>j. JNum (Finite (of_nat (j - 10)))),
      ToString = (\<lambda>v. case v of JStr s \<Rightarrow> s | _ \<Rightarrow> ''3''),
      encode = (\<lambda>s. s),
      new_Statistics = None,
      new_ObjectState = None,
      new_FrameData = None,
      config = None,
      outer_this_taskID = None\<rparr>"

text \<open>The same environment with a server whose jobs carry no \<open>task_id\<close>.\<close>

definition sample_env_no_task_id :: "nat env" where
  "sample_env_no_task_id = sample_env\<lparr>task_id_of := (\<lambda>_. JUndefined)\<rparr>"

section \<open>Helper facts\<close>

lemma sample_env_simps [simp]:
  "TaskStatus sample_env = [JStr ''annotation'', JStr ''validation'', JStr ''completed'']"
  "TaskMode sample_env = [JStr ''annotation'', JStr ''interpolation'']"
  "getSelf sample_env = Inr 1"
  "getUsers sample_env = Inr [1, 2]"
  "getJob sample_env = (\<lambda>_. Inr 7)"
  "getTasks sample_env = (\<lambda>_. Inr [3])"
  "new_User sample_env = (\<lambda>u. u + 100)"
  "new_Task sample_env = (\<lambda>x. case x of None \<Rightarrow> 0 | Some t \<Rightarrow> t + 200)"
  "task_id_of sample_env = (\<lambda>_. JNum (Finite 3))"
  "jobs_of sample_env = (\<lambda>_. [10, 11])"
  "id_of sample_env = (\<lambda>j. JNum (Finite (of_nat (j - 10))))"
  "ToString sample_env = (\<lambda>v. case v of JStr s \<Rightarrow> s | _ \<Rightarrow> ''3'')"
  "encode sample_env = (\<lambda>s. s)"
  "new_Statistics sample_env = None"
  "new_ObjectState sample_env = None"
  "new_FrameData sample_env = None"
  "config sample_env = None"
  "outer_this_taskID sample_env = None"
  by (simp_all add: sample_env_def)

lemmas run_defs = has_key_def get_prop_def table_def Object_prototype_def ToPropertyKey_def
  task_fields_def sp_toString_def query_fields_def

lemma checkFilter_passed:
  "checkFilter flt tbl = Inr () \<Longrightarrow> (k, v) \<in> set flt \<Longrightarrow> \<exists>c. tbl k = Some c \<and> c v = Inr True"
  by (induction flt) (auto split: option.splits sum.splits if_splits)

lemma get_prop_in_set:
  "has_key k flt \<Longrightarrow> (k, get_prop flt k) \<in> set flt"
proof -
  assume "has_key k flt"
  then obtain v where "map_of flt k = Some v"
    by (auto simp: has_key_def weak_map_of_SomeI) (metis map_of_eq_None_iff not_Some_eq image_eqI fst_conv)
  then show ?thesis by (simp add: get_prop_def map_of_SomeD)
qed

section \<open>The filter validator\<close>

text \<open>
  C1. \<open>checkFilter\<close> tests \<open>prop in fields\<close>, which is also true of a name the table
  only inherits from \<open>Object.prototype\<close>. The filter \<open>{ toString: 'x' }\<close> has an own
  property that is absent from the table \<open>{ self: isBoolean }\<close>, and \<open>checkFilter\<close>
  returns without error; \<open>cvat.tasks.get\<close> accepts the same filter and goes on to call
  the server.
\<close>

theorem checkFilter_accepts_inherited_name:
  "map_of [(''self'', isBoolean)] ''toString'' = None
   \<and> checkFilter [(''toString'', JStr ''x'')] (table (ToString sample_env) [(''self'', isBoolean)]) = Inr ()
   \<and> tasks_get sample_env [(''toString'', JStr ''x'')] = (Inr [203], [GetTasks []])"
  by (simp add: tasks_get_def run_defs)

section \<open>The cross-field rules\<close>

text \<open>
  C2. The filter with the own properties \<open>search: 'a'\<close> and \<open>__proto__: 1\<close> has the
  key \<open>search\<close> together with another key. \<open>cvat.tasks.get\<close> runs \<open>checkFilter\<close>
  first, which finds \<open>__proto__\<close> in the table, calls what it finds and ends in a
  \<open>TypeError\<close>: the cross-field rule and its \<open>ArgumentError\<close> are never reached.
\<close>

theorem tasks_get_search_and_proto_key:
  "tasks_get sample_env [(''search'', JStr ''a''), (''__proto__'', JNum (Finite 1))] = (Inl TypeError, [])"
  by (simp add: tasks_get_def run_defs)

text \<open>
  C3. The filter with the own properties \<open>taskID: 3\<close>, \<open>jobID: 1\<close> and
  \<open>__proto__: 1\<close> has both keys \<open>taskID\<close> and \<open>jobID\<close>. \<open>cvat.jobs.get\<close> runs
  \<open>checkFilter\<close> first, which ends in a \<open>TypeError\<close> on \<open>__proto__\<close>: the rule and
  its \<open>ArgumentError\<close> are never reached.
\<close>

theorem jobs_get_both_ids_and_proto_key:
  "jobs_get sample_env
     [(''taskID'', JNum (Finite 3)), (''jobID'', JNum (Finite 1)), (''__proto__'', JNum (Finite 1))]
   = (Inl TypeError, [])"
  by (simp add: jobs_get_def run_defs)

section \<open>The context wrapper\<close>

text \<open>
  C4. Whatever function is wrapped and whatever the call is, when the wrapper is done
  (the wrapped function returned, it threw, or the context test failed) both slots
  \<open>hidden.taskID\<close> and \<open>hidden.jobID\<close> are deleted.
\<close>

theorem setupEnv_clears_hidden:
  "taskID (hidden_after (setupEnv wrappedFunction this args h)) = None
   \<and> jobID (hidden_after (setupEnv wrappedFunction this args h)) = None"
  by (cases this) (simp_all add: setupEnv_def Let_def split: prod.splits option.splits)

text \<open>
  C5. Called with a \<open>this\<close> that is neither a Task nor a Job, the wrapper raises the
  \<open>ScriptingError\<close> and does not invoke the wrapped function: its outcome is the same
  for every wrapped function. Called on a Task, its result is that of the wrapped
  function run with \<open>hidden.taskID\<close> set to \<open>this.id\<close>; called on a Job, that of the
  wrapped function run with \<open>hidden.jobID\<close> set to \<open>this.id\<close> and \<open>hidden.taskID\<close> to
  \<open>this.task.id\<close>. In both cases the wrapped function is invoked once, and the slots it
  leaves are the ones the wrapper clears.
\<close>

theorem setupEnv_context:
  "setupEnv wrappedFunction ThisOther args h =
     \<lparr>result = Inl (ScriptingError ''Bad context for the function''),
      hidden_after = h\<lparr>taskID := None, jobID := None\<rparr>,
      invocations = []\<rparr>
   \<and> setupEnv wrappedFunction (ThisTask t) args h =
     \<lparr>result = fst (wrappedFunction (ThisTask t) args (h\<lparr>taskID := Some (task_instance_id t)\<rparr>)),
      hidden_after =
        (snd (wrappedFunction (ThisTask t) args (h\<lparr>taskID := Some (task_instance_id t)\<rparr>)))
          \<lparr>taskID := None, jobID := None\<rparr>,
      invocations = [(ThisTask t, args, h\<lparr>taskID := Some (task_instance_id t)\<rparr>)]\<rparr>
   \<and> setupEnv wrappedFunction (ThisJob \<lparr>job_instance_id = i, job_instance_task = Some t\<rparr>) args h =
     \<lparr>result = fst (wrappedFunction (ThisJob \<lparr>job_instance_id = i, job_instance_task = Some t\<rparr>) args
                      (h\<lparr>jobID := Some i, taskID := Some (task_instance_id t)\<rparr>)),
      hidden_after =
        (snd (wrappedFunction (ThisJob \<lparr>job_instance_id = i, job_instance_task = Some t\<rparr>) args
                (h\<lparr>jobID := Some i, taskID := Some (task_instance_id t)\<rparr>)))
          \<lparr>taskID := None, jobID := None\<rparr>,
      invocations = [(ThisJob \<lparr>job_instance_id = i, job_instance_task = Some t\<rparr>, args,
                      h\<lparr>jobID := Some i, taskID := Some (task_instance_id t)\<rparr>)]\<rparr>"
  by (simp add: setupEnv_def Let_def case_prod_beta)

section \<open>The handlers\<close>

lemma body_stub:
  "op \<notin> {annotations_dump, annotations_statistics, annotations_get, frames_get}
   \<Longrightarrow> \<exists>v. body e op this args h = (Inr (Val v), h)"
  by (cases op) simp_all

lemma setupEnv_result:
  "wrappedFunction (ThisTask t) args (h\<lparr>taskID := Some (task_instance_id t)\<rparr>) = (r, h')
   \<Longrightarrow> result (setupEnv wrappedFunction (ThisTask t) args h) = r"
  "job_instance_task j = Some t \<Longrightarrow>
   wrappedFunction (ThisJob j) args
     (h\<lparr>jobID := Some (job_instance_id j), taskID := Some (task_instance_id t)\<rparr>) = (r, h')
   \<Longrightarrow> result (setupEnv wrappedFunction (ThisJob j) args h) = r"
  by (simp_all add: setupEnv_def Let_def)

lemma stub_returns:
  assumes "op \<notin> {annotations_dump, annotations_statistics, annotations_get, frames_get}"
  shows "\<exists>v. result (jobAPI e op (ThisTask t) args h) = Inr (Val v)"
    and "\<exists>v. result (taskAPI e op (ThisTask t) args h) = Inr (Val v)"
    and "job_instance_task j = Some t \<Longrightarrow> \<exists>v. result (jobAPI e op (ThisJob j) args h) = Inr (Val v)"
    and "job_instance_task j = Some t \<Longrightarrow> \<exists>v. result (taskAPI e op (ThisJob j) args h) = Inr (Val v)"
proof -
  from body_stub [OF assms]
  obtain v where v: "body e op (ThisTask t) args (h\<lparr>taskID := Some (task_instance_id t)\<rparr>)
      = (Inr (Val v), h\<lparr>taskID := Some (task_instance_id t)\<rparr>)"
    by blast
  from setupEnv_result(1) [where wrappedFunction = "body e op", OF v]
  show "\<exists>v. result (jobAPI e op (ThisTask t) args h) = Inr (Val v)"
    and "\<exists>v. result (taskAPI e op (ThisTask t) args h) = Inr (Val v)"
    by (simp_all add: jobAPI_def taskAPI_def)
next
  assume j: "job_instance_task j = Some t"
  from body_stub [OF assms]
  obtain v where v: "body e op (ThisJob j) args
        (h\<lparr>jobID := Some (job_instance_id j), taskID := Some (task_instance_id t)\<rparr>)
      = (Inr (Val v), h\<lparr>jobID := Some (job_instance_id j), taskID := Some (task_instance_id t)\<rparr>)"
    by blast
  from setupEnv_result(2) [where wrappedFunction = "body e op", OF j v]
  show "\<exists>v. result (jobAPI e op (ThisJob j) args h) = Inr (Val v)"
    by (simp add: jobAPI_def)
next
  assume j: "job_instance_task j = Some t"
  from body_stub [OF assms]
  obtain v where v: "body e op (ThisJob j) args
        (h\<lparr>jobID := Some (job_instance_id j), taskID := Some (task_instance_id t)\<rparr>)
      = (Inr (Val v), h\<lparr>jobID := Some (job_instance_id j), taskID := Some (task_instance_id t)\<rparr>)"
    by blast
  from setupEnv_result(2) [where wrappedFunction = "body e op", OF j v]
  show "\<exists>v. result (taskAPI e op (ThisJob j) args h) = Inr (Val v)"
    by (simp add: taskAPI_def)
qed

text \<open>
  C8. The handler \<open>annotations.statistics\<close>, called on a Job, evaluates
  \<open>new Statistics()\<close>; the file declares no \<open>Statistics\<close>, and where no global of that
  name exists the call ends in a \<open>ReferenceError\<close>.
\<close>

theorem statistics_handler_raises:
  "result (jobAPI sample_env annotations_statistics
             (ThisJob \<lparr>job_instance_id = JNum (Finite 1),
                       job_instance_task = Some \<lparr>task_instance_id = JNum (Finite 3)\<rparr>\<rparr>)
             [] \<lparr>taskID = None, jobID = None\<rparr>)
   = Inl (ReferenceError ''Statistics is not defined'')"
  by (simp add: jobAPI_def setupEnv_def Let_def)

section \<open>The query of cvat.tasks.get\<close>

lemma sp_set_fresh: "n \<notin> fst ` set sp \<Longrightarrow> sp_set sp n v = sp @ [(n, v)]"
  by (induction sp) auto

lemma fill_fresh:
  "distinct fs \<Longrightarrow> set fs \<inter> fst ` set sp = {} \<Longrightarrow>
   fill e flt sp fs =
     sp @ map (\<lambda>f. (f, ToString e (get_prop flt f))) (filter (\<lambda>f. has_key f flt) fs)"
proof (induction fs arbitrary: sp)
  case Nil
  show ?case by simp
next
  case (Cons f fs)
  show ?case
  proof (cases "has_key f flt")
    case True
    from Cons.prems have fresh: "f \<notin> fst ` set sp" by auto
    from Cons.prems have "distinct fs" "set fs \<inter> fst ` set (sp @ [(f, ToString e (get_prop flt f))]) = {}"
      by auto
    from Cons.IH [OF this] True fresh show ?thesis
      by (simp add: sp_set_fresh)
  next
    case False
    from Cons.prems have "distinct fs" "set fs \<inter> fst ` set sp = {}" by auto
    from Cons.IH [OF this] False show ?thesis by simp
  qed
qed

lemma fill_query_fields:
  "fill e flt [] query_fields =
     map (\<lambda>f. (f, ToString e (get_prop flt f))) (filter (\<lambda>f. has_key f flt) query_fields)"
proof -
  have "distinct query_fields" by (simp add: query_fields_def)
  from fill_fresh [OF this, of "[]" e flt] show ?thesis by simp
qed

text \<open>
  C6. For a filter that passes \<open>checkFilter\<close> and both cross-field rules,
  \<open>cvat.tasks.get\<close> calls \<open>serverProxy.tasks.getTasks\<close> once, with the query string
  of exactly those of \<open>name\<close>, \<open>owner\<close>, \<open>assignee\<close>, \<open>search\<close>, \<open>status\<close>, \<open>mode\<close>,
  \<open>id\<close> that the filter has, each set to the filter's value for it, and returns the
  answer with every element made a Task; the query string of the empty filter is empty.
\<close>

theorem tasks_get_query:
  "(checkFilter flt (task_fields e) = Inr ()
    \<and> \<not> (has_key ''search'' flt \<and> length flt > 1)
    \<and> \<not> (has_key ''id'' flt \<and> length flt > 1)
    \<longrightarrow> tasks_get e flt =
          (let query = sp_toString e
                 (map (\<lambda>f. (f, ToString e (get_prop flt f)))
                    (filter (\<lambda>f. has_key f flt)
                       [''name'', ''owner'', ''assignee'', ''search'', ''status'', ''mode'', ''id'']))
           in case getTasks e query of
                Inl x \<Rightarrow> (Inl x, [GetTasks query])
              | Inr tasks \<Rightarrow> (Inr (map (\<lambda>task. new_Task e (Some task)) tasks), [GetTasks query])))
   \<and> snd (tasks_get e []) = [GetTasks []]"
proof (intro conjI impI)
  assume "checkFilter flt (task_fields e) = Inr ()
    \<and> \<not> (has_key ''search'' flt \<and> length flt > 1)
    \<and> \<not> (has_key ''id'' flt \<and> length flt > 1)"
  then show "tasks_get e flt =
          (let query = sp_toString e
                 (map (\<lambda>f. (f, ToString e (get_prop flt f)))
                    (filter (\<lambda>f. has_key f flt)
                       [''name'', ''owner'', ''assignee'', ''search'', ''status'', ''mode'', ''id'']))
           in case getTasks e query of
                Inl x \<Rightarrow> (Inl x, [GetTasks query])
              | Inr tasks \<Rightarrow> (Inr (map (\<lambda>task. new_Task e (Some task)) tasks), [GetTasks query]))"
    unfolding query_fields_def [symmetric]
    by (auto simp: tasks_get_def fill_query_fields)
next
  show "snd (tasks_get e []) = [GetTasks []]"
    unfolding tasks_get_def fill_query_fields
    by (simp add: has_key_def sp_toString_def Let_def split: sum.splits)
qed

theorem tasks_get_query_witness:
  "tasks_get sample_env [(''owner'', JStr ''bob''), (''name'', JStr ''cats'')]
     = (Inr [203], [GetTasks ''name=cats&owner=bob''])
   \<and> tasks_get sample_env [(''id'', JNum (Finite 3))] = (Inr [203], [GetTasks ''id=3''])
   \<and> snd (tasks_get sample_env []) = [GetTasks []]"
proof -
  have 1: "checkFilter [(''owner'', JStr ''bob''), (''name'', JStr ''cats'')] (task_fields sample_env) = Inr ()
    \<and> \<not> (has_key ''search'' [(''owner'', JStr ''bob''), (''name'', JStr ''cats'')]
          \<and> length [(''owner'', JStr ''bob''), (''name'', JStr ''cats'')] > 1)
    \<and> \<not> (has_key ''id'' [(''owner'', JStr ''bob''), (''name'', JStr ''cats'')]
          \<and> length [(''owner'', JStr ''bob''), (''name'', JStr ''cats'')] > 1)"
    by (simp add: run_defs)
  have 2: "checkFilter [(''id'', JNum (Finite 3))] (task_fields sample_env) = Inr ()
    \<and> \<not> (has_key ''search'' [(''id'', JNum (Finite 3))] \<and> length [(''id'', JNum (Finite 3))] > 1)
    \<and> \<not> (has_key ''id'' [(''id'', JNum (Finite 3))] \<and> length [(''id'', JNum (Finite 3))] > 1)"
    by (simp add: run_defs)
  show ?thesis
    using tasks_get_query [of "[(''owner'', JStr ''bob''), (''name'', JStr ''cats'')]" sample_env]
      tasks_get_query [of "[(''id'', JNum (Finite 3))]" sample_env] 1 2
    by (simp add: run_defs)
qed

section \<open>cvat.users.get\<close>

lemma checked_self:
  assumes "checkFilter flt (table (ToString e) [(''self'', isBoolean)]) = Inr ()"
    and "has_key ''self'' flt"
  shows "\<exists>b. get_prop flt ''self'' = JBool b"
proof -
  from checkFilter_passed [OF assms(1) get_prop_in_set [OF assms(2)]]
  have "isBoolean (get_prop flt ''self'')" by (simp add: table_def)
  then show ?thesis by (cases "get_prop flt ''self''") simp_all
qed

text \<open>
  C7. For a filter that passes \<open>checkFilter\<close>, \<open>cvat.users.get\<close> returns the one-element
  list made from \<open>serverProxy.users.getSelf()\<close> exactly when the filter has \<open>self\<close> with
  the value \<open>true\<close>, and the list of \<open>serverProxy.users.getUsers()\<close> otherwise (\<open>self\<close>
  false or absent); every element is made a User.
\<close>

theorem users_get_spec:
  "checkFilter flt (table (ToString e) [(''self'', isBoolean)]) = Inr () \<longrightarrow>
   users_get e flt =
     (if has_key ''self'' flt \<and> get_prop flt ''self'' = JBool True
      then (case getSelf e of
              Inl x \<Rightarrow> (Inl x, [GetSelf])
            | Inr user \<Rightarrow> (Inr [new_User e user], [GetSelf]))
      else (case getUsers e of
              Inl x \<Rightarrow> (Inl x, [GetUsers])
            | Inr users \<Rightarrow> (Inr (map (new_User e) users), [GetUsers])))"
proof
  assume ok: "checkFilter flt (table (ToString e) [(''self'', isBoolean)]) = Inr ()"
  show "users_get e flt =
     (if has_key ''self'' flt \<and> get_prop flt ''self'' = JBool True
      then (case getSelf e of
              Inl x \<Rightarrow> (Inl x, [GetSelf])
            | Inr user \<Rightarrow> (Inr [new_User e user], [GetSelf]))
      else (case getUsers e of
              Inl x \<Rightarrow> (Inl x, [GetUsers])
            | Inr users \<Rightarrow> (Inr (map (new_User e) users), [GetUsers])))"
  proof (cases "has_key ''self'' flt")
    case True
    from checked_self [OF ok True] obtain b where "get_prop flt ''self'' = JBool b" by blast
    with ok True show ?thesis by (auto simp: users_get_def split: sum.splits)
  next
    case False
    with ok show ?thesis by (simp add: users_get_def)
  qed
qed

theorem users_get_spec_witness:
  "users_get sample_env [(''self'', JBool True)] = (Inr [101], [GetSelf])
   \<and> users_get sample_env [(''self'', JBool False)] = (Inr [101, 102], [GetUsers])
   \<and> users_get sample_env [] = (Inr [101, 102], [GetUsers])"
proof -
  have "checkFilter [(''self'', JBool True)] (table (ToString sample_env) [(''self'', isBoolean)]) = Inr ()"
    "checkFilter [(''self'', JBool False)] (table (ToString sample_env) [(''self'', isBoolean)]) = Inr ()"
    "checkFilter [] (table (ToString sample_env) [(''self'', isBoolean)]) = Inr ()"
    by (simp_all add: table_def)
  then show ?thesis
    using users_get_spec [of "[(''self'', JBool True)]" sample_env]
      users_get_spec [of "[(''self'', JBool False)]" sample_env]
      users_get_spec [of "[]" sample_env]
    by (simp add: has_key_def get_prop_def)
qed

section \<open>cvat.jobs.get with the job id 0\<close>

text \<open>
  C9. Called with the filter whose only key is \<open>jobID\<close>, with the value 0,
  \<open>cvat.jobs.get\<close> returns all the jobs of the task it fetched: the last step tests
  \<open>filter.jobID\<close> for truthiness, which 0 fails, and so does not filter by id.
\<close>

theorem jobs_get_id_zero:
  "getJob e (JNum (Finite 0)) = Inr job
   \<and> tasks_get e [(''id'', task_id_of e job)] = (Inr tasks, cs)
   \<longrightarrow> jobs_get e [(''jobID'', JNum (Finite 0))] =
         (Inr (jobs_of e (new_Task e (first_elem tasks))), GetJob (JNum (Finite 0)) # cs)"
  by (simp add: jobs_get_def has_key_def get_prop_def table_def)

theorem jobs_get_id_zero_witness:
  "jobs_get sample_env [(''jobID'', JNum (Finite 0))] =
     (Inr [10, 11], [GetJob (JNum (Finite 0)), GetTasks ''id=3''])
   \<and> map (id_of sample_env) [10, 11] = [JNum (Finite 0), JNum (Finite 1)]"
proof -
  have "getJob sample_env (JNum (Finite 0)) = Inr 7
   \<and> tasks_get sample_env [(''id'', task_id_of sample_env 7)] = (Inr [203], [GetTasks ''id=3''])"
    by (simp add: tasks_get_def run_defs)
  with jobs_get_id_zero [of sample_env 7 "[203]" "[GetTasks ''id=3'']"]
  show ?thesis by simp
qed

section \<open>Validation and the server proxy\<close>

text \<open>
  C10, as stated, fails: \<open>cvat.jobs.get\<close> with a \<open>jobID\<close> calls
  \<open>serverProxy.jobs.getJob\<close> first and \<open>cvat.tasks.get\<close> with \<open>{ id: job.task_id }\<close>
  after; when the job the server answered has no integer \<open>task_id\<close>, the filter
  validation of that inner call raises the \<open>ArgumentError\<close>, after the proxy call.
\<close>

theorem jobs_get_validates_after_getJob:
  "jobs_get sample_env_no_task_id [(''jobID'', JNum (Finite 1))] =
     (Inl (ArgumentError ''Received filter property id was not satisfied for checker''),
      [GetJob (JNum (Finite 1))])"
  by (simp add: jobs_get_def tasks_get_def run_defs sample_env_no_task_id_def unsatisfied_msg_def)

text \<open>
  C10, amended. When the validation of the operation's own filter fails (\<open>checkFilter\<close>
  on the filter it was called with raises, or the operation's own cross-field rule is
  broken), each of \<open>cvat.users.get\<close>, \<open>cvat.tasks.get\<close> and \<open>cvat.jobs.get\<close> ends in
  that error, the \<open>ArgumentError\<close> of the rule included, and has made no call to the
  server proxy.
\<close>

theorem validation_precedes_proxy:
  "(checkFilter flt (table (ToString e) [(''self'', isBoolean)]) = Inl x
      \<longrightarrow> users_get e flt = (Inl x, []))
   \<and> (checkFilter flt (task_fields e) = Inl x \<longrightarrow> tasks_get e flt = (Inl x, []))
   \<and> (checkFilter flt (task_fields e) = Inr ()
        \<and> (has_key ''search'' flt \<and> length flt > 1 \<or> has_key ''id'' flt \<and> length flt > 1)
      \<longrightarrow> (\<exists>msg. tasks_get e flt = (Inl (ArgumentError msg), [])))
   \<and> (checkFilter flt (table (ToString e) [(''taskID'', isInteger), (''jobID'', isInteger)]) = Inl x
      \<longrightarrow> jobs_get e flt = (Inl x, []))
   \<and> (checkFilter flt (table (ToString e) [(''taskID'', isInteger), (''jobID'', isInteger)]) = Inr ()
        \<and> (has_key ''taskID'' flt \<and> has_key ''jobID'' flt \<or> length flt = 0)
      \<longrightarrow> (\<exists>msg. jobs_get e flt = (Inl (ArgumentError msg), [])))"
proof (intro conjI impI)
  assume "checkFilter flt (table (ToString e) [(''self'', isBoolean)]) = Inl x"
  then show "users_get e flt = (Inl x, [])"
    by (simp add: users_get_def)
next
  assume "checkFilter flt (task_fields e) = Inl x"
  then show "tasks_get e flt = (Inl x, [])"
    by (simp add: tasks_get_def)
next
  assume a: "checkFilter flt (task_fields e) = Inr ()
        \<and> (has_key ''search'' flt \<and> length flt > 1 \<or> has_key ''id'' flt \<and> length flt > 1)"
  show "\<exists>msg. tasks_get e flt = (Inl (ArgumentError msg), [])"
  proof (cases "has_key ''search'' flt \<and> length flt > 1")
    case True
    with a show ?thesis by (simp add: tasks_get_def)
  next
    case False
    with a have "has_key ''id'' flt \<and> length flt > 1" by blast
    with a False show ?thesis by (simp add: tasks_get_def)
  qed
next
  assume "checkFilter flt (table (ToString e) [(''taskID'', isInteger), (''jobID'', isInteger)]) = Inl x"
  then show "jobs_get e flt = (Inl x, [])"
    by (simp add: jobs_get_def)
next
  assume a: "checkFilter flt (table (ToString e) [(''taskID'', isInteger), (''jobID'', isInteger)]) = Inr ()
        \<and> (has_key ''taskID'' flt \<and> has_key ''jobID'' flt \<or> length flt = 0)"
  show "\<exists>msg. jobs_get e flt = (Inl (ArgumentError msg), [])"
  proof (cases "has_key ''taskID'' flt \<and> has_key ''jobID'' flt")
    case True
    with a show ?thesis by (simp add: jobs_get_def)
  next
    case False
    with a have "length flt = 0" by blast
    with a False show ?thesis by (simp add: jobs_get_def)
  qed
qed

theorem validation_precedes_proxy_witness:
  "users_get sample_env [(''self'', JStr ''yes'')]
     = (Inl (ArgumentError ''Received filter property self was not satisfied for checker''), [])
   \<and> tasks_get sample_env [(''colour'', JStr ''red'')]
     = (Inl (ArgumentError ''Unsupported filter property has been recieved: \"colour\"''), [])
   \<and> (\<exists>msg. tasks_get sample_env [(''id'', JNum (Finite 3)), (''name'', JStr ''cats'')]
              = (Inl (ArgumentError msg), []))
   \<and> jobs_get sample_env [(''jobID'', JStr ''1'')]
     = (Inl (ArgumentError ''Received filter property jobID was not satisfied for checker''), [])
   \<and> (\<exists>msg. jobs_get sample_env [] = (Inl (ArgumentError msg), []))"
proof -
  have 1: "checkFilter [(''self'', JStr ''yes'')] (table (ToString sample_env) [(''self'', isBoolean)])
           = Inl (ArgumentError ''Received filter property self was not satisfied for checker'')"
    by (simp add: table_def unsatisfied_msg_def)
  have 2: "checkFilter [(''colour'', JStr ''red'')] (task_fields sample_env)
           = Inl (ArgumentError ''Unsupported filter property has been recieved: \"colour\"'')"
    by (simp add: run_defs unsupported_msg_def)
  have 3: "checkFilter [(''id'', JNum (Finite 3)), (''name'', JStr ''cats'')] (task_fields sample_env) = Inr ()
           \<and> (has_key ''search'' [(''id'', JNum (Finite 3)), (''name'', JStr ''cats'')]
                \<and> length [(''id'', JNum (Finite 3)), (''name'', JStr ''cats'')] > 1
              \<or> has_key ''id'' [(''id'', JNum (Finite 3)), (''name'', JStr ''cats'')]
                \<and> length [(''id'', JNum (Finite 3)), (''name'', JStr ''cats'')] > 1)"
    by (simp add: run_defs)
  have 4: "checkFilter [(''jobID'', JStr ''1'')]
             (table (ToString sample_env) [(''taskID'', isInteger), (''jobID'', isInteger)])
           = Inl (ArgumentError ''Received filter property jobID was not satisfied for checker'')"
    by (simp add: table_def unsatisfied_msg_def)
  have 5: "checkFilter [] (table (ToString sample_env) [(''taskID'', isInteger), (''jobID'', isInteger)]) = Inr ()
           \<and> (has_key ''taskID'' [] \<and> has_key ''jobID'' [] \<or> length ([] :: jsfilter) = 0)"
    by simp
  note a = validation_precedes_proxy [of "[(''self'', JStr ''yes'')]" sample_env,
      THEN conjunct1, THEN mp, OF 1]
  note b = validation_precedes_proxy [of "[(''colour'', JStr ''red'')]" sample_env,
      THEN conjunct2, THEN conjunct1, THEN mp, OF 2]
  note c = validation_precedes_proxy [of "[(''id'', JNum (Finite 3)), (''name'', JStr ''cats'')]" sample_env,
      THEN conjunct2, THEN conjunct2, THEN conjunct1, THEN mp, OF 3]
  note d = validation_precedes_proxy [of "[(''jobID'', JStr ''1'')]" sample_env,
      THEN conjunct2, THEN conjunct2, THEN conjunct2, THEN conjunct1, THEN mp, OF 4]
  note e = validation_precedes_proxy [of "[]" sample_env,
      THEN conjunct2, THEN conjunct2, THEN conjunct2, THEN conjunct2, THEN mp, OF 5]
  from a b c d e show ?thesis by (intro conjI)
qed

end
